theory Spec2Isabelle
  imports Complex_Main "HOL-Library.Sublist"
begin

section \<open>NatalCare offline triage engine: data model\<close>

text \<open>
  Two revisions of \<^verbatim>\<open>LogicCore.ts\<close> are embedded. The first (\<^verbatim>\<open>src/logic.ts\<close>) has the
  deterministic rules followed by the guarded call of the offline model; the second
  (\<^verbatim>\<open>src/unnamed/part_000\<close>, "Logic Core v2") has the deterministic rules only, with
  shorter messages. Names of the second revision carry the suffix \<open>_v2\<close>.

  The numeric vitals are TypeScript \<^verbatim>\<open>number\<close>s that hold instrument readings (mmHg, bpm,
  dipstick grade); they are modelled as unbounded integers, negative and out-of-range
  values included. The running score only ever holds sums of the integer weights. The
  model's prediction is compared with 0.75 and is a \<open>real\<close>.
\<close>

record PatientVitals =
  systolicBP :: int
  diastolicBP :: int
  proteinuria :: int
  fetalHeartRate :: int
  gestationalAge :: int
  symptoms :: "string list"

record PatientVitals_v2 =
  patientId_v2 :: string
  systolicBP_v2 :: int
  diastolicBP_v2 :: int
  proteinuria_v2 :: int
  fetalHeartRate_v2 :: int
  symptoms_v2 :: "string list"

datatype RiskLevel = LOW | MEDIUM | HIGH | CRITICAL

record AssessmentResult =
  riskLevel :: RiskLevel
  uiColor :: string
  action :: string
  reasoning :: "string list"

text \<open>
  An \<^verbatim>\<open>async\<close> function returns a promise, which is fulfilled with a value (\<open>Inr\<close>) or
  rejected with a thrown error (\<open>Inl\<close>). \<open>Error msg\<close> stands for any thrown value.
\<close>

datatype error = Error string

text \<open>The lines written by \<^verbatim>\<open>console.log\<close>, oldest first.\<close>

type_synonym console = "string list"

text \<open>The two locals of \<^verbatim>\<open>assessPatientRisk\<close>: \<^verbatim>\<open>let riskScore = 0; let reasons = []\<close>.\<close>

record scoring =
  riskScore :: int
  reasons :: "string list"

subsection \<open>The threshold table\<close>

text \<open>\<^verbatim>\<open>const THRESHOLDS = { ... }\<close>; both revisions declare the same six entries.\<close>

definition BP_CRITICAL_SYS :: int where "BP_CRITICAL_SYS = 160"
definition BP_CRITICAL_DIA :: int where "BP_CRITICAL_DIA = 110"
definition BP_HIGH_SYS :: int where "BP_HIGH_SYS = 140"
definition BP_HIGH_DIA :: int where "BP_HIGH_DIA = 90"
definition FHR_LOW :: int where "FHR_LOW = 110"
definition FHR_HIGH :: int where "FHR_HIGH = 160"

subsection \<open>Template literals\<close>

text \<open>
  \<^verbatim>\<open>`${n}`\<close> renders a number by \<^verbatim>\<open>Number.prototype.toString\<close>. For a safe integer
  (\<^verbatim>\<open>Number.isSafeInteger\<close>: magnitude at most \<open>2^53 - 1\<close>) that is its decimal digits,
  with a leading minus sign when negative. Beyond that range the template literal rounds
  the digits, and from \<open>10^21\<close> on it switches to exponent notation (\<^verbatim>\<open>1e+21\<close>);
  \<open>numberToString\<close> models neither, so every statement below about the rendered reading
  carries the hypothesis \<open>isSafeInteger\<close>.
\<close>

definition isSafeInteger :: "int \<Rightarrow> bool" where
  "isSafeInteger i = (\<bar>i\<bar> \<le> 2 ^ 53 - 1)"

definition digitChar :: "nat \<Rightarrow> char" where
  "digitChar d = ''0123456789'' ! d"

fun natToString :: "nat \<Rightarrow> string" where
  "natToString n =
     (if n < 10 then [digitChar n] else natToString (n div 10) @ [digitChar (n mod 10)])"

declare natToString.simps [simp del]

definition numberToString :: "int \<Rightarrow> string" where
  "numberToString i =
     (if i < 0 then ''-'' @ natToString (nat (- i)) else natToString (nat i))"

text \<open>
  Reading a rendered number back, used only to state what \<open>numberToString\<close> returns:
  the value of a string of decimal digits, with an optional leading minus sign.
\<close>

definition digitValue :: "char \<Rightarrow> nat" where
  "digitValue c = of_char c - 48"

definition decimalValue :: "string \<Rightarrow> nat" where
  "decimalValue ds = foldl (\<lambda>a c. 10 * a + digitValue c) 0 ds"

definition readNumber :: "string \<Rightarrow> int" where
  "readNumber str =
     (case str of
        [] \<Rightarrow> 0
      | c # ds \<Rightarrow> if c = CHR ''-'' then - int (decimalValue ds) else int (decimalValue str))"

section \<open>The triage function of \<^verbatim>\<open>src/logic.ts\<close>\<close>

subsection \<open>Step A: deterministic rules\<close>

definition checkHypertension :: "PatientVitals \<Rightarrow> scoring \<Rightarrow> scoring" where
  "checkHypertension vitals s =
     (if systolicBP vitals \<ge> BP_CRITICAL_SYS \<or> diastolicBP vitals \<ge> BP_CRITICAL_DIA then
        s\<lparr>riskScore := riskScore s + 50,
          reasons := reasons s @ [''Severe Hypertension detected (Immediate Referral needed)'']\<rparr>
      else if systolicBP vitals \<ge> BP_HIGH_SYS \<or> diastolicBP vitals \<ge> BP_HIGH_DIA then
        s\<lparr>riskScore := riskScore s + 20,
          reasons := reasons s @ [''Hypertension detected'']\<rparr>
      else s)"

definition checkPreeclampsia :: "PatientVitals \<Rightarrow> scoring \<Rightarrow> scoring" where
  "checkPreeclampsia vitals s =
     (if riskScore s \<ge> 20 \<and> proteinuria vitals > 1 then
        s\<lparr>riskScore := riskScore s + 40,
          reasons := reasons s @
            [''Potential Preeclampsia: High BP combined with Proteinuria'']\<rparr>
      else s)"

definition checkFetalDistress :: "PatientVitals \<Rightarrow> scoring \<Rightarrow> scoring" where
  "checkFetalDistress vitals s =
     (if fetalHeartRate vitals < FHR_LOW \<or> fetalHeartRate vitals > FHR_HIGH then
        s\<lparr>riskScore := riskScore s + 30,
          reasons := reasons s @
            [''Abnormal Fetal Heart Rate detected: '' @
               numberToString (fetalHeartRate vitals) @ '' bpm'']\<rparr>
      else s)"

definition deterministicRules :: "PatientVitals \<Rightarrow> scoring" where
  "deterministicRules vitals =
     checkFetalDistress vitals
       (checkPreeclampsia vitals
          (checkHypertension vitals \<lparr>riskScore = 0, reasons = []\<rparr>))"

subsection \<open>Step B: the guarded call of the offline model\<close>

text \<open>
  \<^verbatim>\<open>try { const aiPrediction = await runOfflineModel(vitals); if (aiPrediction > 0.75) ... }
  catch (error) { console.log(...) }\<close>.
  The model is a parameter here, so that a provider that throws can be put in the place
  of the shipped placeholder; \<open>assessPatientRisk\<close> below fixes it to \<open>runOfflineModel\<close>.
\<close>

definition aiInference ::
  "(PatientVitals \<Rightarrow> error + real) \<Rightarrow> PatientVitals \<Rightarrow> scoring \<times> console \<Rightarrow> scoring \<times> console"
  where
  "aiInference model vitals st =
     (case st of (s, out) \<Rightarrow>
        (case model vitals of
           Inr aiPrediction \<Rightarrow>
             (if aiPrediction > 0.75 then
                (s\<lparr>riskScore := riskScore s + 15,
                   reasons := reasons s @
                     [''AI Analysis: Pattern matches historical high-risk cases'']\<rparr>, out)
              else (s, out))
         | Inl err \<Rightarrow>
             (s, out @ [''AI Model unavailable offline, relying on heuristic rules.''])))"

subsection \<open>Step C: the final assessment\<close>

definition generateFinalAssessment :: "scoring \<Rightarrow> AssessmentResult" where
  "generateFinalAssessment s =
     (if riskScore s \<ge> 50 then
        \<lparr>riskLevel = CRITICAL, uiColor = ''#FF0000'',
         action = ''EMERGENCY: INITIATE TRANSPORT TO GENERAL HOSPITAL NOW.'',
         reasoning = reasons s\<rparr>
      else if riskScore s \<ge> 20 then
        \<lparr>riskLevel = HIGH, uiColor = ''#FFA500'',
         action = ''REFERRAL: Monitor closely and prepare for transport.'',
         reasoning = reasons s\<rparr>
      else if riskScore s \<ge> 10 then
        \<lparr>riskLevel = MEDIUM, uiColor = ''#FFFF00'',
         action = ''WARNING: Re-assess vitals in 4 hours.'',
         reasoning = reasons s\<rparr>
      else
        \<lparr>riskLevel = LOW, uiColor = ''#008000'',
         action = ''STABLE: Continue routine care.'',
         reasoning = [''Vitals within normal limits'']\<rparr>)"

subsection \<open>The whole function\<close>

definition finalScoring ::
  "(PatientVitals \<Rightarrow> error + real) \<Rightarrow> PatientVitals \<Rightarrow> console \<Rightarrow> scoring \<times> console" where
  "finalScoring model vitals out = aiInference model vitals (deterministicRules vitals, out)"

definition assessPatientRiskWith ::
  "(PatientVitals \<Rightarrow> error + real) \<Rightarrow> PatientVitals \<Rightarrow> console
     \<Rightarrow> (error + AssessmentResult) \<times> console" where
  "assessPatientRiskWith model vitals out =
     (case finalScoring model vitals out of
        (s, out') \<Rightarrow> (Inr (generateFinalAssessment s), out'))"

text \<open>\<^verbatim>\<open>async function runOfflineModel(data) { return 0.1; // Placeholder }\<close>\<close>

definition runOfflineModel :: "PatientVitals \<Rightarrow> error + real" where
  "runOfflineModel data = Inr 0.1"

definition assessPatientRisk ::
  "PatientVitals \<Rightarrow> console \<Rightarrow> (error + AssessmentResult) \<times> console" where
  "assessPatientRisk = assessPatientRiskWith runOfflineModel"

section \<open>The triage function of \<^verbatim>\<open>src/unnamed/part_000\<close>\<close>

definition checkHypertension_v2 :: "PatientVitals_v2 \<Rightarrow> scoring \<Rightarrow> scoring" where
  "checkHypertension_v2 vitals s =
     (if systolicBP_v2 vitals \<ge> BP_CRITICAL_SYS \<or> diastolicBP_v2 vitals \<ge> BP_CRITICAL_DIA then
        s\<lparr>riskScore := riskScore s + 50,
          reasons := reasons s @ [''Severe Hypertension detected'']\<rparr>
      else if systolicBP_v2 vitals \<ge> BP_HIGH_SYS \<or> diastolicBP_v2 vitals \<ge> BP_HIGH_DIA then
        s\<lparr>riskScore := riskScore s + 20,
          reasons := reasons s @ [''Hypertension detected'']\<rparr>
      else s)"

definition checkPreeclampsia_v2 :: "PatientVitals_v2 \<Rightarrow> scoring \<Rightarrow> scoring" where
  "checkPreeclampsia_v2 vitals s =
     (if riskScore s \<ge> 20 \<and> proteinuria_v2 vitals > 1 then
        s\<lparr>riskScore := riskScore s + 40,
          reasons := reasons s @ [''Potential Preeclampsia (BP + Protein)'']\<rparr>
      else s)"

definition checkFetalHeartRate_v2 :: "PatientVitals_v2 \<Rightarrow> scoring \<Rightarrow> scoring" where
  "checkFetalHeartRate_v2 vitals s =
     (if fetalHeartRate_v2 vitals < FHR_LOW \<or> fetalHeartRate_v2 vitals > FHR_HIGH then
        s\<lparr>riskScore := riskScore s + 30,
          reasons := reasons s @
            [''Abnormal Fetal Heart Rate: '' @ numberToString (fetalHeartRate_v2 vitals)]\<rparr>
      else s)"

definition finalScoring_v2 :: "PatientVitals_v2 \<Rightarrow> scoring" where
  "finalScoring_v2 vitals =
     checkFetalHeartRate_v2 vitals
       (checkPreeclampsia_v2 vitals
          (checkHypertension_v2 vitals \<lparr>riskScore = 0, reasons = []\<rparr>))"

definition generateResult_v2 :: "scoring \<Rightarrow> AssessmentResult" where
  "generateResult_v2 s =
     (if riskScore s \<ge> 50 then
        \<lparr>riskLevel = CRITICAL, uiColor = ''#FF0000'',
         action = ''EMERGENCY: TRANSPORT NOW'', reasoning = reasons s\<rparr>
      else if riskScore s \<ge> 20 then
        \<lparr>riskLevel = HIGH, uiColor = ''#FFA500'',
         action = ''REFERRAL: Monitor & Prepare'', reasoning = reasons s\<rparr>
      else if riskScore s \<ge> 10 then
        \<lparr>riskLevel = MEDIUM, uiColor = ''#FFFF00'',
         action = ''WARNING: Re-check in 4hrs'', reasoning = reasons s\<rparr>
      else
        \<lparr>riskLevel = LOW, uiColor = ''#008000'',
         action = ''STABLE'', reasoning = [''Normal limits'']\<rparr>)"

definition assessPatientRisk_v2 :: "PatientVitals_v2 \<Rightarrow> error + AssessmentResult" where
  "assessPatientRisk_v2 vitals = Inr (generateResult_v2 (finalScoring_v2 vitals))"

section \<open>Auxiliary facts\<close>

lemmas THRESHOLDS_defs =
  BP_CRITICAL_SYS_def BP_CRITICAL_DIA_def BP_HIGH_SYS_def BP_HIGH_DIA_def
  FHR_LOW_def FHR_HIGH_def

subsection \<open>Rendering of numbers\<close>

lemma natToString_100: "natToString 100 = ''100''"
  by (simp add: natToString.simps [of 100] natToString.simps [of 10]
      natToString.simps [of "Suc 0"] digitChar_def)

lemma numberToString_100: "numberToString 100 = ''100''"
  by (simp add: numberToString_def natToString_100)

subsection \<open>What each rule adds to the score\<close>

lemma riskScore_checkHypertension:
  "riskScore (checkHypertension v s) =
     riskScore s + (if 160 \<le> systolicBP v \<or> 110 \<le> diastolicBP v then 50
                    else if 140 \<le> systolicBP v \<or> 90 \<le> diastolicBP v then 20 else 0)"
  by (simp add: checkHypertension_def THRESHOLDS_defs)

lemma riskScore_checkPreeclampsia:
  "riskScore (checkPreeclampsia v s) =
     riskScore s + (if 20 \<le> riskScore s \<and> 1 < proteinuria v then 40 else 0)"
  by (simp add: checkPreeclampsia_def)

lemma riskScore_checkFetalDistress:
  "riskScore (checkFetalDistress v s) =
     riskScore s + (if fetalHeartRate v < 110 \<or> 160 < fetalHeartRate v then 30 else 0)"
  by (simp add: checkFetalDistress_def THRESHOLDS_defs)

lemma riskScore_aiInference:
  "riskScore (fst (aiInference model v (s, out))) =
     riskScore s + (case model v of Inl e \<Rightarrow> 0 | Inr p \<Rightarrow> if 0.75 < p then 15 else 0)"
  by (simp add: aiInference_def split: sum.split)

lemma riskLevel_generateFinalAssessment:
  "riskLevel (generateFinalAssessment s) =
     (if 50 \<le> riskScore s then CRITICAL else if 20 \<le> riskScore s then HIGH
      else if 10 \<le> riskScore s then MEDIUM else LOW)"
  by (simp add: generateFinalAssessment_def)

lemma fst_assessPatientRiskWith:
  "fst (assessPatientRiskWith model v out) =
     Inr (generateFinalAssessment (fst (finalScoring model v out)))"
  by (simp add: assessPatientRiskWith_def split: prod.split)

lemma riskScore_finalScoring_ge:
  "riskScore (deterministicRules v) \<le> riskScore (fst (finalScoring model v out))"
  by (simp add: finalScoring_def riskScore_aiInference split: sum.split)

lemma riskScore_deterministicRules_critical:
  "160 \<le> systolicBP v \<or> 110 \<le> diastolicBP v \<Longrightarrow> 50 \<le> riskScore (deterministicRules v)"
  by (simp add: deterministicRules_def riskScore_checkHypertension riskScore_checkPreeclampsia
      riskScore_checkFetalDistress)

lemma riskScore_checkHypertension_v2:
  "riskScore (checkHypertension_v2 v s) =
     riskScore s + (if 160 \<le> systolicBP_v2 v \<or> 110 \<le> diastolicBP_v2 v then 50
                    else if 140 \<le> systolicBP_v2 v \<or> 90 \<le> diastolicBP_v2 v then 20 else 0)"
  by (simp add: checkHypertension_v2_def THRESHOLDS_defs)

lemma riskScore_checkPreeclampsia_v2:
  "riskScore (checkPreeclampsia_v2 v s) =
     riskScore s + (if 20 \<le> riskScore s \<and> 1 < proteinuria_v2 v then 40 else 0)"
  by (simp add: checkPreeclampsia_v2_def)

lemma riskScore_checkFetalHeartRate_v2:
  "riskScore (checkFetalHeartRate_v2 v s) =
     riskScore s + (if fetalHeartRate_v2 v < 110 \<or> 160 < fetalHeartRate_v2 v then 30 else 0)"
  by (simp add: checkFetalHeartRate_v2_def THRESHOLDS_defs)

lemma riskLevel_generateResult_v2:
  "riskLevel (generateResult_v2 s) =
     (if 50 \<le> riskScore s then CRITICAL else if 20 \<le> riskScore s then HIGH
      else if 10 \<le> riskScore s then MEDIUM else LOW)"
  by (simp add: generateResult_v2_def)

lemma riskScore_finalScoring_v2_critical:
  "160 \<le> systolicBP_v2 v \<or> 110 \<le> diastolicBP_v2 v \<Longrightarrow> 50 \<le> riskScore (finalScoring_v2 v)"
  by (simp add: finalScoring_v2_def riskScore_checkHypertension_v2 riskScore_checkPreeclampsia_v2
      riskScore_checkFetalHeartRate_v2)

subsection \<open>What each rule appends to the reasons\<close>


lemma reasons_checkHypertension:
  "reasons (checkHypertension v s) =
     reasons s @ (if 160 \<le> systolicBP v \<or> 110 \<le> diastolicBP v
                  then [''Severe Hypertension detected (Immediate Referral needed)'']
                  else if 140 \<le> systolicBP v \<or> 90 \<le> diastolicBP v
                  then [''Hypertension detected''] else [])"
  by (simp add: checkHypertension_def THRESHOLDS_defs)

lemma reasons_checkPreeclampsia:
  "reasons (checkPreeclampsia v s) =
     reasons s @ (if 20 \<le> riskScore s \<and> 1 < proteinuria v
                  then [''Potential Preeclampsia: High BP combined with Proteinuria''] else [])"
  by (simp add: checkPreeclampsia_def)

lemma reasons_checkFetalDistress:
  "reasons (checkFetalDistress v s) =
     reasons s @ (if fetalHeartRate v < 110 \<or> 160 < fetalHeartRate v
                  then [''Abnormal Fetal Heart Rate detected: '' @
                          numberToString (fetalHeartRate v) @ '' bpm''] else [])"
  by (simp add: checkFetalDistress_def THRESHOLDS_defs)

lemma fst_aiInference:
  "fst (aiInference model v (s, out)) =
     (case model v of
        Inl e \<Rightarrow> s
      | Inr p \<Rightarrow>
          if 0.75 < p then
            s\<lparr>riskScore := riskScore s + 15,
              reasons := reasons s @
                [''AI Analysis: Pattern matches historical high-risk cases'']\<rparr>
          else s)"
  by (simp add: aiInference_def split: sum.split)

lemma reasons_aiInference:
  "reasons (fst (aiInference model v (s, out))) =
     reasons s @ (case model v of Inl e \<Rightarrow> []
                  | Inr p \<Rightarrow> if 0.75 < p
                      then [''AI Analysis: Pattern matches historical high-risk cases'']
                      else [])"
  by (simp add: fst_aiInference split: sum.split)

lemma reasoning_generateFinalAssessment:
  "reasoning (generateFinalAssessment s) =
     (if 10 \<le> riskScore s then reasons s else [''Vitals within normal limits''])"
  by (simp add: generateFinalAssessment_def)

lemma finalScoring_failed:
  "model v = Inl e \<Longrightarrow> fst (finalScoring model v out) = deterministicRules v"
  by (simp add: finalScoring_def fst_aiInference)

lemma finalScoring_runOfflineModel:
  "fst (finalScoring runOfflineModel v out) = deterministicRules v"
  by (simp add: finalScoring_def fst_aiInference runOfflineModel_def)

lemma reasons_checkHypertension_v2:
  "reasons (checkHypertension_v2 v s) =
     reasons s @ (if 160 \<le> systolicBP_v2 v \<or> 110 \<le> diastolicBP_v2 v
                  then [''Severe Hypertension detected'']
                  else if 140 \<le> systolicBP_v2 v \<or> 90 \<le> diastolicBP_v2 v
                  then [''Hypertension detected''] else [])"
  by (simp add: checkHypertension_v2_def THRESHOLDS_defs)

lemma reasons_checkPreeclampsia_v2:
  "reasons (checkPreeclampsia_v2 v s) =
     reasons s @ (if 20 \<le> riskScore s \<and> 1 < proteinuria_v2 v
                  then [''Potential Preeclampsia (BP + Protein)''] else [])"
  by (simp add: checkPreeclampsia_v2_def)

lemma reasons_checkFetalHeartRate_v2:
  "reasons (checkFetalHeartRate_v2 v s) =
     reasons s @ (if fetalHeartRate_v2 v < 110 \<or> 160 < fetalHeartRate_v2 v
                  then [''Abnormal Fetal Heart Rate: '' @ numberToString (fetalHeartRate_v2 v)]
                  else [])"
  by (simp add: checkFetalHeartRate_v2_def THRESHOLDS_defs)

lemma reasoning_generateResult_v2:
  "reasoning (generateResult_v2 s) =
     (if 10 \<le> riskScore s then reasons s else [''Normal limits''])"
  by (simp add: generateResult_v2_def)

lemmas riskScore_rules = riskScore_checkHypertension riskScore_checkPreeclampsia
  riskScore_checkFetalDistress
lemmas reasons_rules = reasons_checkHypertension reasons_checkPreeclampsia
  reasons_checkFetalDistress
lemmas riskScore_rules_v2 = riskScore_checkHypertension_v2 riskScore_checkPreeclampsia_v2
  riskScore_checkFetalHeartRate_v2
lemmas reasons_rules_v2 = reasons_checkHypertension_v2 reasons_checkPreeclampsia_v2
  reasons_checkFetalHeartRate_v2

subsection \<open>Colours, the interpolated reading, reachable scores\<close>






lemma fetal_reason_100:
  "sublist ''100'' ''Abnormal Fetal Heart Rate detected: 100 bpm''"
proof -
  have "''Abnormal Fetal Heart Rate detected: 100 bpm'' =
        ''Abnormal Fetal Heart Rate detected: '' @ ''100'' @ '' bpm''" by simp
  then show ?thesis by (simp only: sublist_appendI)
qed

lemma fetal_reason_100_v2: "sublist ''100'' ''Abnormal Fetal Heart Rate: 100''"
proof -
  have "''Abnormal Fetal Heart Rate: 100'' = ''Abnormal Fetal Heart Rate: '' @ ''100'' @ []"
    by simp
  then show ?thesis by (simp only: sublist_appendI)
qed

lemma riskScore_deterministicRules_values:
  "riskScore (deterministicRules v) \<in> {0, 20, 30, 50, 60, 80, 90, 120}"
  by (simp add: deterministicRules_def riskScore_rules)

lemma riskScore_finalScoring_v2_values:
  "riskScore (finalScoring_v2 w) \<in> {0, 20, 30, 50, 60, 80, 90, 120}"
  by (simp add: finalScoring_v2_def riskScore_rules_v2)

subsection \<open>Reading the rendered number back\<close>

lemma digitChar_cases:
  assumes "d < 10"
  shows "digitChar d \<in> set ''0123456789'' \<and> digitValue (digitChar d) = d"
proof -
  from assms have "d = 0 \<or> d = 1 \<or> d = 2 \<or> d = 3 \<or> d = 4 \<or> d = 5 \<or> d = 6 \<or> d = 7
      \<or> d = 8 \<or> d = 9"
    by arith
  then show ?thesis
    by (elim disjE) (simp_all add: digitChar_def digitValue_def)
qed

lemma decimalValue_snoc:
  "decimalValue (ds @ [c]) = 10 * decimalValue ds + digitValue c"
  by (simp add: decimalValue_def)

lemma decimalValue_natToString: "decimalValue (natToString n) = n"
proof (induction n rule: natToString.induct)
  case (1 n)
  show ?case
  proof (cases "n < 10")
    case True
    then show ?thesis
      by (simp add: natToString.simps [of n] decimalValue_def digitChar_cases)
  next
    case False
    have "n mod 10 < 10" by simp
    with False 1 show ?thesis
      by (simp add: natToString.simps [of n] decimalValue_snoc digitChar_cases)
  qed
qed

lemma natToString_digits: "natToString n \<noteq> [] \<and> set (natToString n) \<subseteq> set ''0123456789''"
proof (induction n rule: natToString.induct)
  case (1 n)
  show ?case
  proof (cases "n < 10")
    case True
    then show ?thesis
      using digitChar_cases [of n] by (simp add: natToString.simps [of n])
  next
    case False
    have "n mod 10 < 10" by simp
    with False 1 show ?thesis
      using digitChar_cases [of "n mod 10"] by (simp add: natToString.simps [of n])
  qed
qed

lemma readNumber_natToString: "readNumber (natToString n) = int n"
proof -
  obtain c ds where e: "natToString n = c # ds"
    using natToString_digits [of n] by (cases "natToString n") auto
  then have "c \<in> set ''0123456789''"
    using natToString_digits [of n] by auto
  then have "c \<noteq> CHR ''-''" by auto
  then show ?thesis
    using e decimalValue_natToString [of n] by (simp add: readNumber_def)
qed

lemma readNumber_numberToString: "readNumber (numberToString i) = i"
proof (cases "i < 0")
  case True
  then show ?thesis
    by (simp add: numberToString_def readNumber_def decimalValue_natToString)
next
  case False
  then show ?thesis
    by (simp add: numberToString_def readNumber_natToString)
qed

lemma numberToString_neg5: "numberToString (- 5) = ''-5''"
  by (simp add: numberToString_def natToString.simps [of 5] digitChar_def)

lemma digitChar_zero: "d < 10 \<Longrightarrow> digitChar d = CHR ''0'' \<Longrightarrow> d = 0"
  using digitChar_cases [of d] by (auto simp add: digitValue_def)

lemma natToString_no_leading_zero:
  "hd (natToString n) = CHR ''0'' \<Longrightarrow> natToString n = ''0''"
proof (induction n rule: natToString.induct)
  case (1 n)
  show ?case
  proof (cases "n < 10")
    case True
    with "1.prems" have "n = 0"
      by (simp add: natToString.simps [of n] digitChar_zero)
    then show ?thesis
      by (simp add: natToString.simps [of 0] digitChar_def)
  next
    case False
    then have e: "natToString n = natToString (n div 10) @ [digitChar (n mod 10)]"
      by (simp add: natToString.simps [of n])
    have ne: "natToString (n div 10) \<noteq> []"
      using natToString_digits [of "n div 10"] by simp
    with e "1.prems" have "hd (natToString (n div 10)) = CHR ''0''" by simp
    with False "1.IH" have z: "natToString (n div 10) = ''0''" by simp
    have "decimalValue (natToString (n div 10)) = n div 10"
      by (rule decimalValue_natToString)
    with z have "n div 10 = 0" by (simp add: decimalValue_def digitValue_def)
    with False show ?thesis by simp
  qed
qed

lemma numberToString_form:
  "\<exists>ds. numberToString i = (if i < 0 then ''-'' @ ds else ds) \<and> ds \<noteq> [] \<and>
        set ds \<subseteq> set ''0123456789'' \<and> (hd ds = CHR ''0'' \<longrightarrow> ds = ''0'')"
proof (cases "i < 0")
  case True
  then show ?thesis
    using natToString_digits [of "nat (- i)"] natToString_no_leading_zero [of "nat (- i)"]
    by (intro exI [of _ "natToString (nat (- i))"]) (simp add: numberToString_def)
next
  case False
  then show ?thesis
    using natToString_digits [of "nat i"] natToString_no_leading_zero [of "nat i"]
    by (intro exI [of _ "natToString (nat i)"]) (simp add: numberToString_def)
qed

subsection \<open>Score and reasons of the whole function in terms of the readings\<close>

lemma high_after_checkHypertension:
  "20 \<le> riskScore (checkHypertension v \<lparr>riskScore = 0, reasons = []\<rparr>) \<longleftrightarrow>
     140 \<le> systolicBP v \<or> 90 \<le> diastolicBP v"
  by (auto simp add: riskScore_checkHypertension)

lemma high_after_checkHypertension_v2:
  "20 \<le> riskScore (checkHypertension_v2 w \<lparr>riskScore = 0, reasons = []\<rparr>) \<longleftrightarrow>
     140 \<le> systolicBP_v2 w \<or> 90 \<le> diastolicBP_v2 w"
  by (auto simp add: riskScore_checkHypertension_v2)

lemma riskScore_finalScoring:
  "riskScore (fst (finalScoring model v out)) =
     (if 160 \<le> systolicBP v \<or> 110 \<le> diastolicBP v then 50
      else if 140 \<le> systolicBP v \<or> 90 \<le> diastolicBP v then 20 else 0) +
     (if (140 \<le> systolicBP v \<or> 90 \<le> diastolicBP v) \<and> 1 < proteinuria v then 40 else 0) +
     (if fetalHeartRate v < 110 \<or> 160 < fetalHeartRate v then 30 else 0) +
     (case model v of Inl e \<Rightarrow> 0 | Inr p \<Rightarrow> if 0.75 < p then 15 else 0)"
  unfolding finalScoring_def deterministicRules_def riskScore_aiInference
    riskScore_checkFetalDistress riskScore_checkPreeclampsia high_after_checkHypertension
  by (simp add: riskScore_checkHypertension)

lemma reasons_finalScoring:
  "reasons (fst (finalScoring model v out)) =
     (if 160 \<le> systolicBP v \<or> 110 \<le> diastolicBP v
      then [''Severe Hypertension detected (Immediate Referral needed)'']
      else if 140 \<le> systolicBP v \<or> 90 \<le> diastolicBP v
      then [''Hypertension detected''] else []) @
     (if (140 \<le> systolicBP v \<or> 90 \<le> diastolicBP v) \<and> 1 < proteinuria v
      then [''Potential Preeclampsia: High BP combined with Proteinuria''] else []) @
     (if fetalHeartRate v < 110 \<or> 160 < fetalHeartRate v
      then [''Abnormal Fetal Heart Rate detected: '' @
              numberToString (fetalHeartRate v) @ '' bpm''] else []) @
     (case model v of Inl e \<Rightarrow> []
      | Inr p \<Rightarrow> if 0.75 < p
          then [''AI Analysis: Pattern matches historical high-risk cases''] else [])"
  unfolding finalScoring_def deterministicRules_def reasons_aiInference
    reasons_checkFetalDistress reasons_checkPreeclampsia high_after_checkHypertension
  by (simp add: reasons_checkHypertension)

lemma riskScore_finalScoring_v2:
  "riskScore (finalScoring_v2 w) =
     (if 160 \<le> systolicBP_v2 w \<or> 110 \<le> diastolicBP_v2 w then 50
      else if 140 \<le> systolicBP_v2 w \<or> 90 \<le> diastolicBP_v2 w then 20 else 0) +
     (if (140 \<le> systolicBP_v2 w \<or> 90 \<le> diastolicBP_v2 w) \<and> 1 < proteinuria_v2 w
      then 40 else 0) +
     (if fetalHeartRate_v2 w < 110 \<or> 160 < fetalHeartRate_v2 w then 30 else 0)"
  unfolding finalScoring_v2_def riskScore_checkFetalHeartRate_v2 riskScore_checkPreeclampsia_v2
    high_after_checkHypertension_v2
  by (simp add: riskScore_checkHypertension_v2)

lemma reasons_finalScoring_v2:
  "reasons (finalScoring_v2 w) =
     (if 160 \<le> systolicBP_v2 w \<or> 110 \<le> diastolicBP_v2 w
      then [''Severe Hypertension detected'']
      else if 140 \<le> systolicBP_v2 w \<or> 90 \<le> diastolicBP_v2 w
      then [''Hypertension detected''] else []) @
     (if (140 \<le> systolicBP_v2 w \<or> 90 \<le> diastolicBP_v2 w) \<and> 1 < proteinuria_v2 w
      then [''Potential Preeclampsia (BP + Protein)''] else []) @
     (if fetalHeartRate_v2 w < 110 \<or> 160 < fetalHeartRate_v2 w
      then [''Abnormal Fetal Heart Rate: '' @ numberToString (fetalHeartRate_v2 w)] else [])"
  unfolding finalScoring_v2_def reasons_checkFetalHeartRate_v2 reasons_checkPreeclampsia_v2
    high_after_checkHypertension_v2
  by (simp add: reasons_checkHypertension_v2)

lemma fetal_reason_iff:
  "''Abnormal Fetal Heart Rate detected: '' @ numberToString (fetalHeartRate v) @ '' bpm''
      \<in> set (reasoning (generateFinalAssessment (fst (finalScoring model v out)))) \<longleftrightarrow>
   fetalHeartRate v < 110 \<or> 160 < fetalHeartRate v"
  by (simp add: reasoning_generateFinalAssessment riskScore_finalScoring reasons_finalScoring
      split: sum.split)

lemma fetal_reason_iff_v2:
  "''Abnormal Fetal Heart Rate: '' @ numberToString (fetalHeartRate_v2 w)
      \<in> set (reasoning (generateResult_v2 (finalScoring_v2 w))) \<longleftrightarrow>
   fetalHeartRate_v2 w < 110 \<or> 160 < fetalHeartRate_v2 w"
  by (simp add: reasoning_generateResult_v2 riskScore_finalScoring_v2 reasons_finalScoring_v2)

section \<open>The claims\<close>

subsection \<open>C1: severe hypertension dominates\<close>

text \<open>
  C1. For every vitals input with systolicBP \<open>\<ge> 160\<close> or diastolicBP \<open>\<ge> 110\<close>,
  \<^verbatim>\<open>assessPatientRisk\<close> returns riskLevel CRITICAL, whatever the other fields hold and
  whatever the predictive model returns or throws. The same holds for the second
  revision, which has no model.
\<close>

theorem critical_hypertension_dominates:
  "(160 \<le> systolicBP v \<or> 110 \<le> diastolicBP v \<longrightarrow>
      (\<exists>r. fst (assessPatientRiskWith model v out) = Inr r \<and> riskLevel r = CRITICAL)) \<and>
   (160 \<le> systolicBP_v2 w \<or> 110 \<le> diastolicBP_v2 w \<longrightarrow>
      (\<exists>r. assessPatientRisk_v2 w = Inr r \<and> riskLevel r = CRITICAL))"
proof (intro conjI impI)
  assume h: "160 \<le> systolicBP v \<or> 110 \<le> diastolicBP v"
  have "50 \<le> riskScore (fst (finalScoring model v out))"
    using riskScore_deterministicRules_critical [OF h]
      riskScore_finalScoring_ge [of v model out] by linarith
  then show "\<exists>r. fst (assessPatientRiskWith model v out) = Inr r \<and> riskLevel r = CRITICAL"
    by (simp add: fst_assessPatientRiskWith riskLevel_generateFinalAssessment)
next
  assume h: "160 \<le> systolicBP_v2 w \<or> 110 \<le> diastolicBP_v2 w"
  show "\<exists>r. assessPatientRisk_v2 w = Inr r \<and> riskLevel r = CRITICAL"
    using riskScore_finalScoring_v2_critical [OF h]
    by (simp add: assessPatientRisk_v2_def riskLevel_generateResult_v2)
qed

theorem critical_hypertension_dominates_witness:
  "160 \<le> systolicBP \<lparr>systolicBP = 165, diastolicBP = 85, proteinuria = 0,
       fetalHeartRate = 140, gestationalAge = 30, symptoms = []\<rparr> \<and>
   (\<exists>r. fst (assessPatientRiskWith runOfflineModel \<lparr>systolicBP = 165, diastolicBP = 85,
       proteinuria = 0, fetalHeartRate = 140, gestationalAge = 30, symptoms = []\<rparr> []) = Inr r
      \<and> riskLevel r = CRITICAL) \<and>
   110 \<le> diastolicBP_v2 \<lparr>patientId_v2 = ''p1'', systolicBP_v2 = 120, diastolicBP_v2 = 110,
       proteinuria_v2 = 0, fetalHeartRate_v2 = 140, symptoms_v2 = []\<rparr> \<and>
   (\<exists>r. assessPatientRisk_v2 \<lparr>patientId_v2 = ''p1'', systolicBP_v2 = 120,
       diastolicBP_v2 = 110, proteinuria_v2 = 0, fetalHeartRate_v2 = 140, symptoms_v2 = []\<rparr> = Inr r
      \<and> riskLevel r = CRITICAL)"
  using critical_hypertension_dominates [of
      "\<lparr>systolicBP = 165, diastolicBP = 85, proteinuria = 0, fetalHeartRate = 140,
        gestationalAge = 30, symptoms = []\<rparr>" runOfflineModel "[]"
      "\<lparr>patientId_v2 = ''p1'', systolicBP_v2 = 120, diastolicBP_v2 = 110,
        proteinuria_v2 = 0, fetalHeartRate_v2 = 140, symptoms_v2 = []\<rparr>"]
  by simp

subsection \<open>C2: no validation of the vitals\<close>

text \<open>
  C2 says that a vitals input with an out-of-range or missing required field is rejected
  with a validation error naming the field, before any rule runs. Neither revision has
  such a check: a negative systolic pressure and a proteinuria grade of 9 are scored
  like any other reading and the call returns the LOW assessment.
\<close>

theorem no_validation_counterexample:
  "assessPatientRisk \<lparr>systolicBP = - 5, diastolicBP = 80, proteinuria = 9,
       fetalHeartRate = 140, gestationalAge = 30, symptoms = []\<rparr> [] =
     (Inr \<lparr>riskLevel = LOW, uiColor = ''#008000'', action = ''STABLE: Continue routine care.'',
           reasoning = [''Vitals within normal limits'']\<rparr>, []) \<and>
   assessPatientRisk_v2 \<lparr>patientId_v2 = ''p1'', systolicBP_v2 = - 5, diastolicBP_v2 = 80,
       proteinuria_v2 = 9, fetalHeartRate_v2 = 140, symptoms_v2 = []\<rparr> =
     Inr \<lparr>riskLevel = LOW, uiColor = ''#008000'', action = ''STABLE'',
          reasoning = [''Normal limits'']\<rparr>"
  by (simp add: assessPatientRisk_def assessPatientRiskWith_def finalScoring_def
      aiInference_def runOfflineModel_def deterministicRules_def checkHypertension_def
      checkPreeclampsia_def checkFetalDistress_def generateFinalAssessment_def
      assessPatientRisk_v2_def finalScoring_v2_def checkHypertension_v2_def
      checkPreeclampsia_v2_def checkFetalHeartRate_v2_def generateResult_v2_def THRESHOLDS_defs)

text \<open>
  C2, as amended. \<^verbatim>\<open>assessPatientRisk\<close> validates nothing: for every vitals input, readings
  out of range included, and whatever the predictive model returns or throws, the call
  is never rejected with an error and returns the result the scoring rules compute from
  the readings as they are. No reading is excluded: the total score is the sum of the
  four rule weights decided by the threshold comparisons on the raw readings, the tier
  is the tier mapping of that score, and (for a heart rate that is a safe integer, so
  that its rendering is decimal) the reasoning list is the list of the reasons of the
  rules that fired, or the fixed message below score 10.
\<close>

theorem assessPatientRisk_scores_every_reading:
  "riskScore (fst (finalScoring model v out)) =
     (if 160 \<le> systolicBP v \<or> 110 \<le> diastolicBP v then 50
      else if 140 \<le> systolicBP v \<or> 90 \<le> diastolicBP v then 20 else 0) +
     (if (140 \<le> systolicBP v \<or> 90 \<le> diastolicBP v) \<and> 1 < proteinuria v then 40 else 0) +
     (if fetalHeartRate v < 110 \<or> 160 < fetalHeartRate v then 30 else 0) +
     (case model v of Inl e \<Rightarrow> 0 | Inr p \<Rightarrow> if 0.75 < p then 15 else 0) \<and>
   (\<exists>r. fst (assessPatientRiskWith model v out) = Inr r \<and>
      riskLevel r =
        (if 50 \<le> riskScore (fst (finalScoring model v out)) then CRITICAL
         else if 20 \<le> riskScore (fst (finalScoring model v out)) then HIGH
         else if 10 \<le> riskScore (fst (finalScoring model v out)) then MEDIUM else LOW)) \<and>
   (\<forall>e. fst (assessPatientRiskWith model v out) \<noteq> Inl e) \<and>
   (isSafeInteger (fetalHeartRate v) \<longrightarrow>
      (\<exists>r. fst (assessPatientRiskWith model v out) = Inr r \<and>
         reasoning r =
           (if 10 \<le> riskScore (fst (finalScoring model v out)) then
              (if 160 \<le> systolicBP v \<or> 110 \<le> diastolicBP v
               then [''Severe Hypertension detected (Immediate Referral needed)'']
               else if 140 \<le> systolicBP v \<or> 90 \<le> diastolicBP v
               then [''Hypertension detected''] else []) @
              (if (140 \<le> systolicBP v \<or> 90 \<le> diastolicBP v) \<and> 1 < proteinuria v
               then [''Potential Preeclampsia: High BP combined with Proteinuria''] else []) @
              (if fetalHeartRate v < 110 \<or> 160 < fetalHeartRate v
               then [''Abnormal Fetal Heart Rate detected: '' @
                       numberToString (fetalHeartRate v) @ '' bpm''] else []) @
              (case model v of Inl e \<Rightarrow> []
               | Inr p \<Rightarrow> if 0.75 < p
                   then [''AI Analysis: Pattern matches historical high-risk cases'']
                   else [])
            else [''Vitals within normal limits'']))) \<and>
   riskScore (finalScoring_v2 w) =
     (if 160 \<le> systolicBP_v2 w \<or> 110 \<le> diastolicBP_v2 w then 50
      else if 140 \<le> systolicBP_v2 w \<or> 90 \<le> diastolicBP_v2 w then 20 else 0) +
     (if (140 \<le> systolicBP_v2 w \<or> 90 \<le> diastolicBP_v2 w) \<and> 1 < proteinuria_v2 w
      then 40 else 0) +
     (if fetalHeartRate_v2 w < 110 \<or> 160 < fetalHeartRate_v2 w then 30 else 0) \<and>
   (\<exists>r. assessPatientRisk_v2 w = Inr r \<and>
      riskLevel r =
        (if 50 \<le> riskScore (finalScoring_v2 w) then CRITICAL
         else if 20 \<le> riskScore (finalScoring_v2 w) then HIGH
         else if 10 \<le> riskScore (finalScoring_v2 w) then MEDIUM else LOW)) \<and>
   (\<forall>e. assessPatientRisk_v2 w \<noteq> Inl e) \<and>
   (isSafeInteger (fetalHeartRate_v2 w) \<longrightarrow>
      (\<exists>r. assessPatientRisk_v2 w = Inr r \<and>
         reasoning r =
           (if 10 \<le> riskScore (finalScoring_v2 w) then
              (if 160 \<le> systolicBP_v2 w \<or> 110 \<le> diastolicBP_v2 w
               then [''Severe Hypertension detected'']
               else if 140 \<le> systolicBP_v2 w \<or> 90 \<le> diastolicBP_v2 w
               then [''Hypertension detected''] else []) @
              (if (140 \<le> systolicBP_v2 w \<or> 90 \<le> diastolicBP_v2 w) \<and> 1 < proteinuria_v2 w
               then [''Potential Preeclampsia (BP + Protein)''] else []) @
              (if fetalHeartRate_v2 w < 110 \<or> 160 < fetalHeartRate_v2 w
               then [''Abnormal Fetal Heart Rate: '' @ numberToString (fetalHeartRate_v2 w)]
               else [])
            else [''Normal limits''])))"
proof (intro conjI impI allI)
  show "riskScore (fst (finalScoring model v out)) =
     (if 160 \<le> systolicBP v \<or> 110 \<le> diastolicBP v then 50
      else if 140 \<le> systolicBP v \<or> 90 \<le> diastolicBP v then 20 else 0) +
     (if (140 \<le> systolicBP v \<or> 90 \<le> diastolicBP v) \<and> 1 < proteinuria v then 40 else 0) +
     (if fetalHeartRate v < 110 \<or> 160 < fetalHeartRate v then 30 else 0) +
     (case model v of Inl e \<Rightarrow> 0 | Inr p \<Rightarrow> if 0.75 < p then 15 else 0)"
    by (rule riskScore_finalScoring)
  show "riskScore (finalScoring_v2 w) =
     (if 160 \<le> systolicBP_v2 w \<or> 110 \<le> diastolicBP_v2 w then 50
      else if 140 \<le> systolicBP_v2 w \<or> 90 \<le> diastolicBP_v2 w then 20 else 0) +
     (if (140 \<le> systolicBP_v2 w \<or> 90 \<le> diastolicBP_v2 w) \<and> 1 < proteinuria_v2 w
      then 40 else 0) +
     (if fetalHeartRate_v2 w < 110 \<or> 160 < fetalHeartRate_v2 w then 30 else 0)"
    by (rule riskScore_finalScoring_v2)
qed (simp_all only: fst_assessPatientRiskWith assessPatientRisk_v2_def sum.inject sum.distinct
    simp_thms ex_simps riskLevel_generateFinalAssessment riskLevel_generateResult_v2
    reasoning_generateFinalAssessment reasoning_generateResult_v2 reasons_finalScoring
    reasons_finalScoring_v2 not_False_eq_True)

theorem assessPatientRisk_scores_every_reading_witness:
  "isSafeInteger (fetalHeartRate \<lparr>systolicBP = 200, diastolicBP = - 3, proteinuria = 9,
       fetalHeartRate = - 5, gestationalAge = 30, symptoms = []\<rparr>) \<and>
   riskScore (fst (finalScoring runOfflineModel \<lparr>systolicBP = 200, diastolicBP = - 3,
       proteinuria = 9, fetalHeartRate = - 5, gestationalAge = 30, symptoms = []\<rparr> [])) = 120 \<and>
   (\<exists>r. fst (assessPatientRiskWith runOfflineModel \<lparr>systolicBP = 200, diastolicBP = - 3,
       proteinuria = 9, fetalHeartRate = - 5, gestationalAge = 30, symptoms = []\<rparr> []) = Inr r \<and>
      riskLevel r = CRITICAL) \<and>
   (\<exists>r. fst (assessPatientRiskWith runOfflineModel \<lparr>systolicBP = 200, diastolicBP = - 3,
       proteinuria = 9, fetalHeartRate = - 5, gestationalAge = 30, symptoms = []\<rparr> []) = Inr r \<and>
      reasoning r =
        [''Severe Hypertension detected (Immediate Referral needed)'',
         ''Potential Preeclampsia: High BP combined with Proteinuria'',
         ''Abnormal Fetal Heart Rate detected: -5 bpm'']) \<and>
   isSafeInteger (fetalHeartRate_v2 \<lparr>patientId_v2 = ''p1'', systolicBP_v2 = 200,
       diastolicBP_v2 = - 3, proteinuria_v2 = 9, fetalHeartRate_v2 = - 5, symptoms_v2 = []\<rparr>) \<and>
   riskScore (finalScoring_v2 \<lparr>patientId_v2 = ''p1'', systolicBP_v2 = 200,
       diastolicBP_v2 = - 3, proteinuria_v2 = 9, fetalHeartRate_v2 = - 5, symptoms_v2 = []\<rparr>) = 120 \<and>
   (\<exists>r. assessPatientRisk_v2 \<lparr>patientId_v2 = ''p1'', systolicBP_v2 = 200,
       diastolicBP_v2 = - 3, proteinuria_v2 = 9, fetalHeartRate_v2 = - 5, symptoms_v2 = []\<rparr> = Inr r \<and>
      riskLevel r = CRITICAL) \<and>
   (\<exists>r. assessPatientRisk_v2 \<lparr>patientId_v2 = ''p1'', systolicBP_v2 = 200,
       diastolicBP_v2 = - 3, proteinuria_v2 = 9, fetalHeartRate_v2 = - 5, symptoms_v2 = []\<rparr> = Inr r \<and>
      reasoning r =
        [''Severe Hypertension detected'', ''Potential Preeclampsia (BP + Protein)'',
         ''Abnormal Fetal Heart Rate: -5''])"
  using assessPatientRisk_scores_every_reading [where
      v = "\<lparr>systolicBP = 200, diastolicBP = - 3, proteinuria = 9, fetalHeartRate = - 5,
            gestationalAge = 30, symptoms = []\<rparr>"
      and model = runOfflineModel and out = "[]"
      and w = "\<lparr>patientId_v2 = ''p1'', systolicBP_v2 = 200, diastolicBP_v2 = - 3,
            proteinuria_v2 = 9, fetalHeartRate_v2 = - 5, symptoms_v2 = []\<rparr>"]
  by (auto simp add: isSafeInteger_def runOfflineModel_def numberToString_neg5)

subsection \<open>C3: the preeclampsia rule\<close>




subsection \<open>C4: the LOW tier replaces the reasons\<close>

text \<open>
  C4. Whenever the total score is below 10 the result is LOW with the reasoning list
  made of the one fixed message; the accumulated reasons, whatever they are, are
  dropped. Both revisions (the fixed message and the action differ between them).
\<close>

theorem low_tier_replaces_reasons:
  "(riskScore s < 10 \<longrightarrow>
      generateFinalAssessment s =
        \<lparr>riskLevel = LOW, uiColor = ''#008000'', action = ''STABLE: Continue routine care.'',
         reasoning = [''Vitals within normal limits'']\<rparr>) \<and>
   (riskScore (fst (finalScoring model v out)) < 10 \<longrightarrow>
      fst (assessPatientRiskWith model v out) =
        Inr \<lparr>riskLevel = LOW, uiColor = ''#008000'', action = ''STABLE: Continue routine care.'',
             reasoning = [''Vitals within normal limits'']\<rparr>) \<and>
   (riskScore s < 10 \<longrightarrow>
      generateResult_v2 s =
        \<lparr>riskLevel = LOW, uiColor = ''#008000'', action = ''STABLE'',
         reasoning = [''Normal limits'']\<rparr>) \<and>
   (riskScore (finalScoring_v2 w) < 10 \<longrightarrow>
      assessPatientRisk_v2 w =
        Inr \<lparr>riskLevel = LOW, uiColor = ''#008000'', action = ''STABLE'',
             reasoning = [''Normal limits'']\<rparr>)"
  by (simp add: generateFinalAssessment_def generateResult_v2_def fst_assessPatientRiskWith
      assessPatientRisk_v2_def)

theorem low_tier_replaces_reasons_witness:
  "riskScore \<lparr>riskScore = 9, reasons = [''Hypertension detected'']\<rparr> < 10 \<and>
   generateFinalAssessment \<lparr>riskScore = 9, reasons = [''Hypertension detected'']\<rparr> =
     \<lparr>riskLevel = LOW, uiColor = ''#008000'', action = ''STABLE: Continue routine care.'',
      reasoning = [''Vitals within normal limits'']\<rparr> \<and>
   riskScore (fst (finalScoring runOfflineModel
      \<lparr>systolicBP = 120, diastolicBP = 80, proteinuria = 0, fetalHeartRate = 140,
       gestationalAge = 30, symptoms = []\<rparr> [])) < 10 \<and>
   fst (assessPatientRiskWith runOfflineModel
      \<lparr>systolicBP = 120, diastolicBP = 80, proteinuria = 0, fetalHeartRate = 140,
       gestationalAge = 30, symptoms = []\<rparr> []) =
     Inr \<lparr>riskLevel = LOW, uiColor = ''#008000'', action = ''STABLE: Continue routine care.'',
          reasoning = [''Vitals within normal limits'']\<rparr> \<and>
   generateResult_v2 \<lparr>riskScore = 9, reasons = [''Hypertension detected'']\<rparr> =
     \<lparr>riskLevel = LOW, uiColor = ''#008000'', action = ''STABLE'',
      reasoning = [''Normal limits'']\<rparr> \<and>
   riskScore (finalScoring_v2
      \<lparr>patientId_v2 = ''p1'', systolicBP_v2 = 120, diastolicBP_v2 = 80, proteinuria_v2 = 0,
       fetalHeartRate_v2 = 140, symptoms_v2 = []\<rparr>) < 10 \<and>
   assessPatientRisk_v2
      \<lparr>patientId_v2 = ''p1'', systolicBP_v2 = 120, diastolicBP_v2 = 80, proteinuria_v2 = 0,
       fetalHeartRate_v2 = 140, symptoms_v2 = []\<rparr> =
     Inr \<lparr>riskLevel = LOW, uiColor = ''#008000'', action = ''STABLE'',
          reasoning = [''Normal limits'']\<rparr>"
proof -
  have a: "riskScore (fst (finalScoring runOfflineModel
      \<lparr>systolicBP = 120, diastolicBP = 80, proteinuria = 0, fetalHeartRate = 140,
       gestationalAge = 30, symptoms = []\<rparr> [])) < 10"
    by (simp add: finalScoring_runOfflineModel deterministicRules_def riskScore_rules)
  have b: "riskScore (finalScoring_v2
      \<lparr>patientId_v2 = ''p1'', systolicBP_v2 = 120, diastolicBP_v2 = 80, proteinuria_v2 = 0,
       fetalHeartRate_v2 = 140, symptoms_v2 = []\<rparr>) < 10"
    by (simp add: finalScoring_v2_def riskScore_rules_v2)
  show ?thesis
    using a b low_tier_replaces_reasons [where
      s = "\<lparr>riskScore = 9, reasons = [''Hypertension detected'']\<rparr>"
      and model = runOfflineModel and out = "[]"
      and v = "\<lparr>systolicBP = 120, diastolicBP = 80, proteinuria = 0, fetalHeartRate = 140,
            gestationalAge = 30, symptoms = []\<rparr>"
      and w = "\<lparr>patientId_v2 = ''p1'', systolicBP_v2 = 120, diastolicBP_v2 = 80,
            proteinuria_v2 = 0, fetalHeartRate_v2 = 140, symptoms_v2 = []\<rparr>"]
    by simp
qed

subsection \<open>C5: a failing model is skipped\<close>

text \<open>
  C5. If the predictive model throws at the given vitals, the score and reasons are
  those of the deterministic rules alone, the returned result is the tier mapping of
  that scoring, and it equals the result of the shipped function, whose placeholder
  signal never fires. Only the console differs (one diagnostic line).
\<close>

theorem model_failure_is_skipped:
  "model v = Inl e \<longrightarrow>
     fst (finalScoring model v out) = deterministicRules v \<and>
     fst (assessPatientRiskWith model v out) =
       Inr (generateFinalAssessment (deterministicRules v)) \<and>
     fst (assessPatientRiskWith model v out) = fst (assessPatientRisk v out')"
  by (simp add: fst_assessPatientRiskWith finalScoring_failed assessPatientRisk_def
      finalScoring_runOfflineModel)

theorem model_failure_is_skipped_witness:
  "fst (finalScoring (\<lambda>data. Inl (Error ''model not loaded''))
      \<lparr>systolicBP = 150, diastolicBP = 95, proteinuria = 2, fetalHeartRate = 100,
       gestationalAge = 30, symptoms = []\<rparr> []) =
     deterministicRules
      \<lparr>systolicBP = 150, diastolicBP = 95, proteinuria = 2, fetalHeartRate = 100,
       gestationalAge = 30, symptoms = []\<rparr> \<and>
   fst (assessPatientRiskWith (\<lambda>data. Inl (Error ''model not loaded''))
      \<lparr>systolicBP = 150, diastolicBP = 95, proteinuria = 2, fetalHeartRate = 100,
       gestationalAge = 30, symptoms = []\<rparr> []) =
     Inr (generateFinalAssessment (deterministicRules
      \<lparr>systolicBP = 150, diastolicBP = 95, proteinuria = 2, fetalHeartRate = 100,
       gestationalAge = 30, symptoms = []\<rparr>)) \<and>
   fst (assessPatientRiskWith (\<lambda>data. Inl (Error ''model not loaded''))
      \<lparr>systolicBP = 150, diastolicBP = 95, proteinuria = 2, fetalHeartRate = 100,
       gestationalAge = 30, symptoms = []\<rparr> []) =
     fst (assessPatientRisk
      \<lparr>systolicBP = 150, diastolicBP = 95, proteinuria = 2, fetalHeartRate = 100,
       gestationalAge = 30, symptoms = []\<rparr> [])"
  by (rule mp [OF model_failure_is_skipped [where
      model = "\<lambda>data. Inl (Error ''model not loaded'')"
      and e = "Error ''model not loaded''"]]) simp

subsection \<open>C6: tier boundaries and colours\<close>


subsection \<open>C7: the fetal distress rule\<close>

text \<open>
  C7. The fetal distress rule adds 30 and appends a reason that interpolates the observed
  heart rate exactly when fetalHeartRate \<open>< 110\<close> or \<open>> 160\<close>; otherwise it changes
  nothing. This holds of the rule on any running state and of the whole function: the
  total score is the score left by the hypertension and preeclampsia checks, plus 30
  exactly in that case, plus what the model adds; and the reason is in the returned
  reasoning list exactly in that case. For a heart rate that is a safe integer the
  interpolated text is the reading itself: decimal digits without a leading zero, a
  minus sign in front when negative, and reading it back gives the heart rate. For every
  vitals input with fetalHeartRate = 100, systolicBP \<open>< 140\<close>, diastolicBP \<open>< 90\<close> and
  proteinuria \<open>\<le> 1\<close>, the shipped function reaches score 30 and returns HIGH with a
  single reason, which contains the substring "100". Both revisions.
\<close>

theorem fetal_distress_rule:
  "(isSafeInteger (fetalHeartRate v) \<and> (fetalHeartRate v < 110 \<or> 160 < fetalHeartRate v) \<longrightarrow>
      checkFetalDistress v s =
        s\<lparr>riskScore := riskScore s + 30,
          reasons := reasons s @
            [''Abnormal Fetal Heart Rate detected: '' @ numberToString (fetalHeartRate v) @
             '' bpm'']\<rparr>) \<and>
   (\<not> (fetalHeartRate v < 110 \<or> 160 < fetalHeartRate v) \<longrightarrow> checkFetalDistress v s = s) \<and>
   riskScore (checkFetalDistress v s) =
     riskScore s + (if fetalHeartRate v < 110 \<or> 160 < fetalHeartRate v then 30 else 0) \<and>
   riskScore (fst (finalScoring model v out)) =
     riskScore (checkPreeclampsia v (checkHypertension v \<lparr>riskScore = 0, reasons = []\<rparr>)) +
     (if fetalHeartRate v < 110 \<or> 160 < fetalHeartRate v then 30 else 0) +
     (case model v of Inl e \<Rightarrow> 0 | Inr p \<Rightarrow> if 0.75 < p then 15 else 0) \<and>
   (isSafeInteger (fetalHeartRate v) \<longrightarrow>
      readNumber (numberToString (fetalHeartRate v)) = fetalHeartRate v \<and>
      (\<exists>ds. numberToString (fetalHeartRate v) =
              (if fetalHeartRate v < 0 then ''-'' @ ds else ds) \<and> ds \<noteq> [] \<and>
            set ds \<subseteq> set ''0123456789'' \<and> (hd ds = CHR ''0'' \<longrightarrow> ds = ''0'')) \<and>
      (\<exists>r. fst (assessPatientRiskWith model v out) = Inr r \<and>
         (''Abnormal Fetal Heart Rate detected: '' @ numberToString (fetalHeartRate v) @ '' bpm''
            \<in> set (reasoning r) \<longleftrightarrow>
          fetalHeartRate v < 110 \<or> 160 < fetalHeartRate v))) \<and>
   (fetalHeartRate v = 100 \<and> systolicBP v < 140 \<and> diastolicBP v < 90 \<and> proteinuria v \<le> 1 \<longrightarrow>
      riskScore (fst (finalScoring runOfflineModel v out)) = 30 \<and>
      fst (assessPatientRisk v out) =
        Inr \<lparr>riskLevel = HIGH, uiColor = ''#FFA500'',
             action = ''REFERRAL: Monitor closely and prepare for transport.'',
             reasoning = [''Abnormal Fetal Heart Rate detected: 100 bpm'']\<rparr> \<and>
      sublist ''100'' ''Abnormal Fetal Heart Rate detected: 100 bpm'') \<and>
   (isSafeInteger (fetalHeartRate_v2 w) \<and>
    (fetalHeartRate_v2 w < 110 \<or> 160 < fetalHeartRate_v2 w) \<longrightarrow>
      checkFetalHeartRate_v2 w s =
        s\<lparr>riskScore := riskScore s + 30,
          reasons := reasons s @
            [''Abnormal Fetal Heart Rate: '' @ numberToString (fetalHeartRate_v2 w)]\<rparr>) \<and>
   (\<not> (fetalHeartRate_v2 w < 110 \<or> 160 < fetalHeartRate_v2 w) \<longrightarrow>
      checkFetalHeartRate_v2 w s = s) \<and>
   riskScore (checkFetalHeartRate_v2 w s) =
     riskScore s + (if fetalHeartRate_v2 w < 110 \<or> 160 < fetalHeartRate_v2 w then 30 else 0) \<and>
   riskScore (finalScoring_v2 w) =
     riskScore (checkPreeclampsia_v2 w (checkHypertension_v2 w \<lparr>riskScore = 0, reasons = []\<rparr>)) +
     (if fetalHeartRate_v2 w < 110 \<or> 160 < fetalHeartRate_v2 w then 30 else 0) \<and>
   (isSafeInteger (fetalHeartRate_v2 w) \<longrightarrow>
      readNumber (numberToString (fetalHeartRate_v2 w)) = fetalHeartRate_v2 w \<and>
      (\<exists>r. assessPatientRisk_v2 w = Inr r \<and>
         (''Abnormal Fetal Heart Rate: '' @ numberToString (fetalHeartRate_v2 w)
            \<in> set (reasoning r) \<longleftrightarrow>
          fetalHeartRate_v2 w < 110 \<or> 160 < fetalHeartRate_v2 w))) \<and>
   (fetalHeartRate_v2 w = 100 \<and> systolicBP_v2 w < 140 \<and> diastolicBP_v2 w < 90 \<and>
    proteinuria_v2 w \<le> 1 \<longrightarrow>
      riskScore (finalScoring_v2 w) = 30 \<and>
      assessPatientRisk_v2 w =
        Inr \<lparr>riskLevel = HIGH, uiColor = ''#FFA500'', action = ''REFERRAL: Monitor & Prepare'',
             reasoning = [''Abnormal Fetal Heart Rate: 100'']\<rparr> \<and>
      sublist ''100'' ''Abnormal Fetal Heart Rate: 100'')"
proof (intro conjI impI)
  show "riskScore (fst (finalScoring model v out)) =
     riskScore (checkPreeclampsia v (checkHypertension v \<lparr>riskScore = 0, reasons = []\<rparr>)) +
     (if fetalHeartRate v < 110 \<or> 160 < fetalHeartRate v then 30 else 0) +
     (case model v of Inl e \<Rightarrow> 0 | Inr p \<Rightarrow> if 0.75 < p then 15 else 0)"
    by (simp add: finalScoring_def deterministicRules_def riskScore_aiInference
        riskScore_checkFetalDistress)
  show "riskScore (finalScoring_v2 w) =
     riskScore (checkPreeclampsia_v2 w (checkHypertension_v2 w \<lparr>riskScore = 0, reasons = []\<rparr>)) +
     (if fetalHeartRate_v2 w < 110 \<or> 160 < fetalHeartRate_v2 w then 30 else 0)"
    by (simp add: finalScoring_v2_def riskScore_checkFetalHeartRate_v2)
  show "readNumber (numberToString (fetalHeartRate v)) = fetalHeartRate v"
    by (rule readNumber_numberToString)
  show "readNumber (numberToString (fetalHeartRate_v2 w)) = fetalHeartRate_v2 w"
    by (rule readNumber_numberToString)
  show "\<exists>ds. numberToString (fetalHeartRate v) =
              (if fetalHeartRate v < 0 then ''-'' @ ds else ds) \<and> ds \<noteq> [] \<and>
            set ds \<subseteq> set ''0123456789'' \<and> (hd ds = CHR ''0'' \<longrightarrow> ds = ''0'')"
    by (rule numberToString_form)
  show "\<exists>r. fst (assessPatientRiskWith model v out) = Inr r \<and>
         (''Abnormal Fetal Heart Rate detected: '' @ numberToString (fetalHeartRate v) @ '' bpm''
            \<in> set (reasoning r) \<longleftrightarrow>
          fetalHeartRate v < 110 \<or> 160 < fetalHeartRate v)"
    unfolding fst_assessPatientRiskWith using fetal_reason_iff [of v model out] by blast
  show "\<exists>r. assessPatientRisk_v2 w = Inr r \<and>
         (''Abnormal Fetal Heart Rate: '' @ numberToString (fetalHeartRate_v2 w)
            \<in> set (reasoning r) \<longleftrightarrow>
          fetalHeartRate_v2 w < 110 \<or> 160 < fetalHeartRate_v2 w)"
    unfolding assessPatientRisk_v2_def using fetal_reason_iff_v2 [of w] by blast
next
  assume h: "fetalHeartRate v = 100 \<and> systolicBP v < 140 \<and> diastolicBP v < 90 \<and> proteinuria v \<le> 1"
  then have d: "deterministicRules v =
      \<lparr>riskScore = 30, reasons = [''Abnormal Fetal Heart Rate detected: 100 bpm'']\<rparr>"
    by (simp add: deterministicRules_def checkHypertension_def checkPreeclampsia_def
        checkFetalDistress_def THRESHOLDS_defs numberToString_100)
  then show "riskScore (fst (finalScoring runOfflineModel v out)) = 30"
    by (simp add: finalScoring_runOfflineModel)
  from d show "fst (assessPatientRisk v out) =
        Inr \<lparr>riskLevel = HIGH, uiColor = ''#FFA500'',
             action = ''REFERRAL: Monitor closely and prepare for transport.'',
             reasoning = [''Abnormal Fetal Heart Rate detected: 100 bpm'']\<rparr>"
    by (simp add: assessPatientRisk_def fst_assessPatientRiskWith finalScoring_runOfflineModel
        generateFinalAssessment_def)
next
  assume h: "fetalHeartRate_v2 w = 100 \<and> systolicBP_v2 w < 140 \<and> diastolicBP_v2 w < 90 \<and>
    proteinuria_v2 w \<le> 1"
  then have d: "finalScoring_v2 w =
      \<lparr>riskScore = 30, reasons = [''Abnormal Fetal Heart Rate: 100'']\<rparr>"
    by (simp add: finalScoring_v2_def checkHypertension_v2_def checkPreeclampsia_v2_def
        checkFetalHeartRate_v2_def THRESHOLDS_defs numberToString_100)
  then show "riskScore (finalScoring_v2 w) = 30" by simp
  from d show "assessPatientRisk_v2 w =
        Inr \<lparr>riskLevel = HIGH, uiColor = ''#FFA500'', action = ''REFERRAL: Monitor & Prepare'',
             reasoning = [''Abnormal Fetal Heart Rate: 100'']\<rparr>"
    by (simp add: assessPatientRisk_v2_def generateResult_v2_def)
qed (simp_all add: checkFetalDistress_def checkFetalHeartRate_v2_def THRESHOLDS_defs
    fetal_reason_100 fetal_reason_100_v2)

theorem fetal_distress_rule_witness:
  "isSafeInteger (fetalHeartRate
      \<lparr>systolicBP = 120, diastolicBP = 80, proteinuria = 0, fetalHeartRate = 100,
       gestationalAge = 30, symptoms = []\<rparr>) \<and>
   checkFetalDistress
      \<lparr>systolicBP = 120, diastolicBP = 80, proteinuria = 0, fetalHeartRate = 100,
       gestationalAge = 30, symptoms = []\<rparr> \<lparr>riskScore = 0, reasons = []\<rparr> =
     \<lparr>riskScore = 30, reasons = [''Abnormal Fetal Heart Rate detected: 100 bpm'']\<rparr> \<and>
   checkFetalDistress
      \<lparr>systolicBP = 120, diastolicBP = 80, proteinuria = 0, fetalHeartRate = 140,
       gestationalAge = 30, symptoms = []\<rparr> \<lparr>riskScore = 0, reasons = []\<rparr> =
     \<lparr>riskScore = 0, reasons = []\<rparr> \<and>
   readNumber ''100'' = 100 \<and>
   riskScore (fst (finalScoring runOfflineModel
      \<lparr>systolicBP = 120, diastolicBP = 80, proteinuria = 0, fetalHeartRate = 100,
       gestationalAge = 30, symptoms = []\<rparr> [])) = 30 \<and>
   fst (assessPatientRisk
      \<lparr>systolicBP = 120, diastolicBP = 80, proteinuria = 0, fetalHeartRate = 100,
       gestationalAge = 30, symptoms = []\<rparr> []) =
     Inr \<lparr>riskLevel = HIGH, uiColor = ''#FFA500'',
          action = ''REFERRAL: Monitor closely and prepare for transport.'',
          reasoning = [''Abnormal Fetal Heart Rate detected: 100 bpm'']\<rparr> \<and>
   isSafeInteger (fetalHeartRate_v2
      \<lparr>patientId_v2 = ''p1'', systolicBP_v2 = 120, diastolicBP_v2 = 80, proteinuria_v2 = 0,
       fetalHeartRate_v2 = 100, symptoms_v2 = []\<rparr>) \<and>
   checkFetalHeartRate_v2
      \<lparr>patientId_v2 = ''p1'', systolicBP_v2 = 120, diastolicBP_v2 = 80, proteinuria_v2 = 0,
       fetalHeartRate_v2 = 100, symptoms_v2 = []\<rparr> \<lparr>riskScore = 0, reasons = []\<rparr> =
     \<lparr>riskScore = 30, reasons = [''Abnormal Fetal Heart Rate: 100'']\<rparr> \<and>
   checkFetalHeartRate_v2
      \<lparr>patientId_v2 = ''p1'', systolicBP_v2 = 120, diastolicBP_v2 = 80, proteinuria_v2 = 0,
       fetalHeartRate_v2 = 140, symptoms_v2 = []\<rparr> \<lparr>riskScore = 0, reasons = []\<rparr> =
     \<lparr>riskScore = 0, reasons = []\<rparr> \<and>
   riskScore (finalScoring_v2
      \<lparr>patientId_v2 = ''p1'', systolicBP_v2 = 120, diastolicBP_v2 = 80, proteinuria_v2 = 0,
       fetalHeartRate_v2 = 100, symptoms_v2 = []\<rparr>) = 30 \<and>
   assessPatientRisk_v2
      \<lparr>patientId_v2 = ''p1'', systolicBP_v2 = 120, diastolicBP_v2 = 80, proteinuria_v2 = 0,
       fetalHeartRate_v2 = 100, symptoms_v2 = []\<rparr> =
     Inr \<lparr>riskLevel = HIGH, uiColor = ''#FFA500'', action = ''REFERRAL: Monitor & Prepare'',
          reasoning = [''Abnormal Fetal Heart Rate: 100'']\<rparr>"
  using
    fetal_distress_rule [where
      v = "\<lparr>systolicBP = 120, diastolicBP = 80, proteinuria = 0, fetalHeartRate = 100,
            gestationalAge = 30, symptoms = []\<rparr>"
      and s = "\<lparr>riskScore = 0, reasons = []\<rparr>" and out = "[]" and model = runOfflineModel
      and w = "\<lparr>patientId_v2 = ''p1'', systolicBP_v2 = 120, diastolicBP_v2 = 80,
            proteinuria_v2 = 0, fetalHeartRate_v2 = 100, symptoms_v2 = []\<rparr>"]
    fetal_distress_rule [where
      v = "\<lparr>systolicBP = 120, diastolicBP = 80, proteinuria = 0, fetalHeartRate = 140,
            gestationalAge = 30, symptoms = []\<rparr>"
      and s = "\<lparr>riskScore = 0, reasons = []\<rparr>" and out = "[]" and model = runOfflineModel
      and w = "\<lparr>patientId_v2 = ''p1'', systolicBP_v2 = 120, diastolicBP_v2 = 80,
            proteinuria_v2 = 0, fetalHeartRate_v2 = 140, symptoms_v2 = []\<rparr>"]
  by (simp add: isSafeInteger_def numberToString_100)

subsection \<open>C8: the hypertension branches exclude each other\<close>

text \<open>
  C8. The hypertension check does exactly one of three things: add 50 with the severe
  reason, add 20 with the plain reason, or nothing. When the critical threshold is met
  (so the high threshold is met too) only the severe branch runs, and no final reasons
  list holds both hypertension reasons. Both revisions.
\<close>

theorem hypertension_branches_exclusive:
  "(checkHypertension v s =
      s\<lparr>riskScore := riskScore s + 50,
        reasons := reasons s @ [''Severe Hypertension detected (Immediate Referral needed)'']\<rparr> \<or>
    checkHypertension v s =
      s\<lparr>riskScore := riskScore s + 20, reasons := reasons s @ [''Hypertension detected'']\<rparr> \<or>
    checkHypertension v s = s) \<and>
   (160 \<le> systolicBP v \<or> 110 \<le> diastolicBP v \<longrightarrow>
      checkHypertension v s =
        s\<lparr>riskScore := riskScore s + 50,
          reasons := reasons s @
            [''Severe Hypertension detected (Immediate Referral needed)'']\<rparr>) \<and>
   \<not> (''Severe Hypertension detected (Immediate Referral needed)''
          \<in> set (reasons (fst (finalScoring model v out))) \<and>
       ''Hypertension detected'' \<in> set (reasons (fst (finalScoring model v out)))) \<and>
   (checkHypertension_v2 w s =
      s\<lparr>riskScore := riskScore s + 50,
        reasons := reasons s @ [''Severe Hypertension detected'']\<rparr> \<or>
    checkHypertension_v2 w s =
      s\<lparr>riskScore := riskScore s + 20, reasons := reasons s @ [''Hypertension detected'']\<rparr> \<or>
    checkHypertension_v2 w s = s) \<and>
   (160 \<le> systolicBP_v2 w \<or> 110 \<le> diastolicBP_v2 w \<longrightarrow>
      checkHypertension_v2 w s =
        s\<lparr>riskScore := riskScore s + 50,
          reasons := reasons s @ [''Severe Hypertension detected'']\<rparr>) \<and>
   \<not> (''Severe Hypertension detected'' \<in> set (reasons (finalScoring_v2 w)) \<and>
       ''Hypertension detected'' \<in> set (reasons (finalScoring_v2 w)))"
proof (intro conjI)
  show "\<not> (''Severe Hypertension detected (Immediate Referral needed)''
          \<in> set (reasons (fst (finalScoring model v out))) \<and>
       ''Hypertension detected'' \<in> set (reasons (fst (finalScoring model v out))))"
    by (simp add: finalScoring_def deterministicRules_def reasons_aiInference reasons_rules
        split: sum.split)
  show "\<not> (''Severe Hypertension detected'' \<in> set (reasons (finalScoring_v2 w)) \<and>
       ''Hypertension detected'' \<in> set (reasons (finalScoring_v2 w)))"
    by (simp add: finalScoring_v2_def reasons_rules_v2)
qed (simp_all add: checkHypertension_def checkHypertension_v2_def THRESHOLDS_defs)

theorem hypertension_branches_exclusive_witness:
  "checkHypertension
      \<lparr>systolicBP = 165, diastolicBP = 95, proteinuria = 0, fetalHeartRate = 140,
       gestationalAge = 30, symptoms = []\<rparr> \<lparr>riskScore = 0, reasons = []\<rparr> =
     \<lparr>riskScore = 50,
      reasons = [''Severe Hypertension detected (Immediate Referral needed)'']\<rparr> \<and>
   checkHypertension_v2
      \<lparr>patientId_v2 = ''p1'', systolicBP_v2 = 165, diastolicBP_v2 = 95, proteinuria_v2 = 0,
       fetalHeartRate_v2 = 140, symptoms_v2 = []\<rparr> \<lparr>riskScore = 0, reasons = []\<rparr> =
     \<lparr>riskScore = 50, reasons = [''Severe Hypertension detected'']\<rparr>"
  using hypertension_branches_exclusive [where
      v = "\<lparr>systolicBP = 165, diastolicBP = 95, proteinuria = 0, fetalHeartRate = 140,
            gestationalAge = 30, symptoms = []\<rparr>"
      and s = "\<lparr>riskScore = 0, reasons = []\<rparr>" and model = runOfflineModel and out = "[]"
      and w = "\<lparr>patientId_v2 = ''p1'', systolicBP_v2 = 165, diastolicBP_v2 = 95,
            proteinuria_v2 = 0, fetalHeartRate_v2 = 140, symptoms_v2 = []\<rparr>"]
  by simp

subsection \<open>C9: determinism\<close>

text \<open>
  C9. The returned result depends on the vitals and on the model's outcome at those
  vitals only, not on the console, which is the only state the function touches: two
  providers that agree at the vitals give equal results from any two consoles, and two
  calls in a row with the same vitals and the same provider, the second one running on
  the console the first one left, return equal results (equal riskLevel, uiColor, action
  and reasoning).
\<close>

theorem assessPatientRisk_deterministic:
  "(model v = model' v \<longrightarrow>
      fst (assessPatientRiskWith model v out) = fst (assessPatientRiskWith model' v out')) \<and>
   (case assessPatientRiskWith model v out of
      (r1, out1) \<Rightarrow>
        (case assessPatientRiskWith model v out1 of (r2, out2) \<Rightarrow> r1 = r2)) \<and>
   (case assessPatientRisk v out of
      (r1, out1) \<Rightarrow> (case assessPatientRisk v out1 of (r2, out2) \<Rightarrow> r1 = r2))"
proof -
  have a: "fst (assessPatientRiskWith m v c) =
      Inr (generateFinalAssessment (fst (aiInference m v (deterministicRules v, []))))"
    for m c
    by (simp add: fst_assessPatientRiskWith finalScoring_def fst_aiInference)
  have b: "(case p of (r1, out1) \<Rightarrow> (case q out1 of (r2, out2) \<Rightarrow> r1 = r2)) =
      (fst p = fst (q (snd p)))" for p :: "'a \<times> 'b" and q :: "'b \<Rightarrow> 'a \<times> 'c"
    by (simp add: split_beta)
  show ?thesis
    unfolding b assessPatientRisk_def a
    by (simp add: fst_aiInference)
qed

theorem assessPatientRisk_deterministic_witness:
  "fst (assessPatientRiskWith runOfflineModel
      \<lparr>systolicBP = 150, diastolicBP = 95, proteinuria = 2, fetalHeartRate = 100,
       gestationalAge = 30, symptoms = []\<rparr> []) =
   fst (assessPatientRiskWith (\<lambda>data. Inr (1 / 10))
      \<lparr>systolicBP = 150, diastolicBP = 95, proteinuria = 2, fetalHeartRate = 100,
       gestationalAge = 30, symptoms = []\<rparr> [''earlier line''])"
  by (rule mp [OF conjunct1 [OF assessPatientRisk_deterministic]])
    (simp add: runOfflineModel_def)

subsection \<open>C10: MEDIUM is unreachable with the placeholder\<close>

text \<open>
  C10. With the shipped placeholder model, which returns 0.1, the total score of every
  vitals input is one of 0, 20, 30, 50, 60, 80, 90, 120, so never in the interval from 10
  up to 20, and the returned riskLevel is never MEDIUM. The same holds for the second
  revision, which has no model.
\<close>

theorem medium_unreachable_with_placeholder:
  "riskScore (fst (finalScoring runOfflineModel v out)) \<in> {0, 20, 30, 50, 60, 80, 90, 120} \<and>
   \<not> (10 \<le> riskScore (fst (finalScoring runOfflineModel v out)) \<and>
       riskScore (fst (finalScoring runOfflineModel v out)) < 20) \<and>
   (\<exists>r. fst (assessPatientRisk v out) = Inr r \<and> riskLevel r \<noteq> MEDIUM) \<and>
   riskScore (finalScoring_v2 w) \<in> {0, 20, 30, 50, 60, 80, 90, 120} \<and>
   \<not> (10 \<le> riskScore (finalScoring_v2 w) \<and> riskScore (finalScoring_v2 w) < 20) \<and>
   (\<exists>r. assessPatientRisk_v2 w = Inr r \<and> riskLevel r \<noteq> MEDIUM)"
proof -
  have a: "riskScore (deterministicRules v) \<in> {0, 20, 30, 50, 60, 80, 90, 120}"
    by (rule riskScore_deterministicRules_values)
  have b: "riskScore (finalScoring_v2 w) \<in> {0, 20, 30, 50, 60, 80, 90, 120}"
    by (rule riskScore_finalScoring_v2_values)
  have a': "\<not> (10 \<le> riskScore (deterministicRules v) \<and> riskScore (deterministicRules v) < 20)"
    using a by auto
  have b': "\<not> (10 \<le> riskScore (finalScoring_v2 w) \<and> riskScore (finalScoring_v2 w) < 20)"
    using b by auto
  have c: "riskLevel (generateFinalAssessment (deterministicRules v)) \<noteq> MEDIUM"
    using a by (auto simp add: riskLevel_generateFinalAssessment)
  have d: "riskLevel (generateResult_v2 (finalScoring_v2 w)) \<noteq> MEDIUM"
    using b by (auto simp add: riskLevel_generateResult_v2)
  show ?thesis
    using a a' b b' c d
    by (simp add: finalScoring_runOfflineModel assessPatientRisk_def fst_assessPatientRiskWith
        assessPatientRisk_v2_def)
qed

end
